theory Spec2Isabelle
  imports Main "HOL-Library.Sublist"
begin

section \<open>Promises, thrown values and the world\<close>

text \<open>
  The two source files are \<^verbatim>\<open>hub/demo/src/utils/zod-fetch.ts\<close> (the schema-validated
  fetch helper) and the root layout of the application (title and description of the
  document).

  A JavaScript \<^verbatim>\<open>throw\<close> carries any value. The helper itself only ever constructs a
  \<^verbatim>\<open>TRPCError\<close> with a \<^verbatim>\<open>code\<close> and a \<^verbatim>\<open>message\<close>; every other thrown value
  comes from a layer outside the file (the network, the body reader, the schema library,
  a caller's fetcher) and is kept opaque. Such a layer may throw a \<^verbatim>\<open>TRPCError\<close> too.
\<close>

datatype ('c, 'e) thrown =
    TRPCError (code: 'c) (message: string)
  | Foreign 'e

text \<open>
  An awaited promise has settled: rejected (\<open>Inl\<close>) with a thrown value or fulfilled
  (\<open>Inr\<close>) with a value. An asynchronous call is a function of the world \<open>'w\<close> (whatever
  the platform and a caller's fetcher can observe and change) that returns how its promise
  settles together with the world it leaves behind.
\<close>

type_synonym ('c, 'e, 'v) settled = "('c, 'e) thrown + 'v"

type_synonym ('w, 'c, 'e, 'v) async = "'w \<Rightarrow> ('c, 'e, 'v) settled \<times> 'w"

definition resolve :: "'v \<Rightarrow> ('w, 'c, 'e, 'v) async" where
  "resolve v w = (Inr v, w)"

definition reject :: "('c, 'e) thrown \<Rightarrow> ('w, 'c, 'e, 'v) async" where
  "reject e w = (Inl e, w)"

definition settle :: "('c, 'e, 'v) settled \<Rightarrow> ('w, 'c, 'e, 'v) async" where
  "settle r w = (r, w)"

text \<open>\<^verbatim>\<open>const v = await m; k(v)\<close>: a rejection of \<open>m\<close> leaves the function at once.\<close>

definition await :: "('w, 'c, 'e, 'u) async \<Rightarrow> ('u \<Rightarrow> ('w, 'c, 'e, 'v) async) \<Rightarrow> ('w, 'c, 'e, 'v) async" where
  "await m k w = (case m w of (Inl e, w') \<Rightarrow> (Inl e, w') | (Inr v, w') \<Rightarrow> k v w')"

text \<open>\<^verbatim>\<open>m.catch(h)\<close> and \<^verbatim>\<open>try { m } catch (e) { h(e) }\<close>.\<close>

definition catch :: "('w, 'c, 'e, 'v) async \<Rightarrow> (('c, 'e) thrown \<Rightarrow> ('w, 'c, 'e, 'v) async) \<Rightarrow> ('w, 'c, 'e, 'v) async" where
  "catch m h w = (case m w of (Inl e, w') \<Rightarrow> h e w' | (Inr v, w') \<Rightarrow> (Inr v, w'))"

section \<open>The platform the helper runs on\<close>

text \<open>
  The \<^verbatim>\<open>Response\<close> of the Fetch API, as far as \<^verbatim>\<open>defaultFetcher\<close> reads it: the flag
  \<^verbatim>\<open>ok\<close>, the numeric \<^verbatim>\<open>status\<close>, and the two asynchronous body readers \<^verbatim>\<open>json()\<close>
  and \<^verbatim>\<open>text()\<close> (the field \<open>text_body\<close>), each of which may reject. \<open>'j\<close> is the type of
  deserialised JSON values.
\<close>

record ('w, 'c, 'e, 'j) response =
  ok :: bool
  status :: nat
  json :: "('w, 'c, 'e, 'j) async"
  text_body :: "('w, 'c, 'e, string) async"

text \<open>The value of the variable \<^verbatim>\<open>body\<close> handed to \<^verbatim>\<open>console.error\<close>: what \<^verbatim>\<open>json()\<close>
  produced, or else what \<^verbatim>\<open>text()\<close> produced.\<close>

datatype 'j body = Structured 'j | Unstructured string

text \<open>
  What the file takes from its surroundings: the global \<^verbatim>\<open>fetch\<close>, \<^verbatim>\<open>console.error\<close>, and
  \<^verbatim>\<open>statusCodeToTRPCErrorCode\<close>, which the file imports from \<^verbatim>\<open>./error\<close>. The last one is
  a function of this repository whose source is not at hand; it is a parameter here, so
  that every result below holds for whatever mapping it computes.
\<close>

record ('a, 'w, 'c, 'e, 'j) platform =
  fetch :: "'a \<Rightarrow> ('w, 'c, 'e, ('w, 'c, 'e, 'j) response) async"
  console_error :: "'j body \<Rightarrow> ('w, 'c, 'e, unit) async"
  statusCodeToTRPCErrorCode :: "nat \<Rightarrow> 'c"

text \<open>
  The template literal \<^verbatim>\<open>`${response.status}`\<close> renders the status, a non-negative
  integer, in decimal without leading zeros.
\<close>

definition digit_char :: "nat \<Rightarrow> char" where
  "digit_char d = char_of (48 + d)"

fun string_of_nat :: "nat \<Rightarrow> string" where
  "string_of_nat n =
     (if n < 10 then [digit_char n] else string_of_nat (n div 10) @ [digit_char (n mod 10)])"

declare string_of_nat.simps [simp del]

text \<open>The number a decimal digit stands for, to read such a string back.\<close>

definition digit_value :: "char \<Rightarrow> nat" where
  "digit_value c = of_char c - 48"

section \<open>zod-fetch.ts\<close>

text \<open>
  \<^verbatim>\<open>Schema<TData>\<close>: an object that has a \<^verbatim>\<open>passthrough\<close> method returning an object with
  \<^verbatim>\<open>parse\<close>, or an object with \<^verbatim>\<open>parse\<close>. The test \<^verbatim>\<open>'passthrough' in schema\<close> asks
  whether the property is there, so the property is optional here; \<open>parse\<close> is not read
  when it is. A parser returns the parsed value or throws.
\<close>

type_synonym ('r, 'c, 'e, 'd) parser = "'r \<Rightarrow> ('c, 'e, 'd) settled"

record ('r, 'c, 'e, 'd) schema =
  passthrough :: "(unit \<Rightarrow> ('r, 'c, 'e, 'd) parser) option"
  parse :: "('r, 'c, 'e, 'd) parser"

text \<open>\<^verbatim>\<open>AnyFetcher\<close>: the arguments are one opaque value \<open>'a\<close> (the spread \<^verbatim>\<open>...args\<close>).\<close>

type_synonym ('a, 'w, 'c, 'e, 'r) fetcher = "'a \<Rightarrow> ('w, 'c, 'e, 'r) async"

text \<open>\<^verbatim>\<open>response.json().catch(() => response.text())\<close>\<close>

definition read_body :: "('w, 'c, 'e, 'j) response \<Rightarrow> ('w, 'c, 'e, 'j body) async" where
  "read_body response =
     catch (await (json response) (\<lambda>v. resolve (Structured v)))
           (\<lambda>_. await (text_body response) (\<lambda>t. resolve (Unstructured t)))"

text \<open>The \<^verbatim>\<open>try { ... } catch (error) {}\<close> block of lines 44 to 47.\<close>

definition log_body :: "('a, 'w, 'c, 'e, 'j) platform \<Rightarrow> ('w, 'c, 'e, 'j) response \<Rightarrow> ('w, 'c, 'e, unit) async" where
  "log_body p response =
     catch (await (read_body response) (\<lambda>body. console_error p body))
           (\<lambda>error. resolve ())"

definition defaultFetcher :: "('a, 'w, 'c, 'e, 'j) platform \<Rightarrow> ('a, 'w, 'c, 'e, 'j) fetcher" where
  "defaultFetcher p args =
     await (fetch p args) (\<lambda>response.
       if \<not> ok response then
         await (log_body p response) (\<lambda>_.
           reject (TRPCError (statusCodeToTRPCErrorCode p (status response))
                             (''Request failed with status: '' @ string_of_nat (status response))))
       else json response)"

text \<open>
  Lines 108 to 111: \<^verbatim>\<open>if ('passthrough' in schema) return schema.passthrough().parse(response);
  return schema.parse(response);\<close>
\<close>

definition parse_response :: "('r, 'c, 'e, 'd) schema \<Rightarrow> ('r, 'c, 'e, 'd) parser" where
  "parse_response schema response =
     (case passthrough schema of
        Some pt \<Rightarrow> pt () response
      | None \<Rightarrow> parse schema response)"

text \<open>
  \<^verbatim>\<open>createZodFetcher(fetcher = defaultFetcher)\<close>: the default parameter stands in when the
  argument is left out (\<open>None\<close>). The function returned takes the schema and the arguments.
\<close>

definition createZodFetcher ::
  "('a, 'w, 'c, 'e, 'j) platform \<Rightarrow> ('a, 'w, 'c, 'e, 'j) fetcher option \<Rightarrow>
   ('j, 'c, 'e, 'd) schema \<Rightarrow> 'a \<Rightarrow> ('w, 'c, 'e, 'd) async" where
  "createZodFetcher p fetcher_arg =
     (let fetcher = (case fetcher_arg of None \<Rightarrow> defaultFetcher p | Some f \<Rightarrow> f) in
      (\<lambda>schema args.
         await (fetcher args) (\<lambda>response. settle (parse_response schema response))))"

text \<open>
  The fetcher of the second example in the documentation of \<^verbatim>\<open>createZodFetcher\<close> (lines 85
  to 87): \<^verbatim>\<open>(url) => fetch(url).then((res) => res.json())\<close>. It reads the body whatever the
  status is.
\<close>

definition example_fetcher :: "('a, 'w, 'c, 'e, 'j) platform \<Rightarrow> ('a, 'w, 'c, 'e, 'j) fetcher" where
  "example_fetcher p url = await (fetch p url) (\<lambda>res. json res)"

section \<open>The root layout\<close>





subsection \<open>The framework's title resolution\<close>






section \<open>Observing the calls a wrapper makes\<close>

text \<open>
  To count the calls of a transport, the world is paired with the list of the arguments
  the transport has been called with so far. \<open>counted f\<close> behaves as \<open>f\<close> on the world and
  appends its arguments to that list; nothing else can touch the list.
\<close>

definition counted :: "('a, 'w, 'c, 'e, 'r) fetcher \<Rightarrow> ('a, 'w \<times> 'a list, 'c, 'e, 'r) fetcher" where
  "counted f args = (\<lambda>(w, calls). case f args w of (r, w') \<Rightarrow> (r, (w', calls @ [args])))"

text \<open>The same for the platform: \<open>observed p\<close> is \<open>p\<close> with every call of \<^verbatim>\<open>fetch\<close> listed;
  the other operations act on the world as before and leave the list alone.\<close>

definition lift :: "('w, 'c, 'e, 'v) async \<Rightarrow> ('w \<times> 'l, 'c, 'e, 'v) async" where
  "lift m = (\<lambda>(w, l). case m w of (r, w') \<Rightarrow> (r, (w', l)))"

definition lift_response :: "('w, 'c, 'e, 'j) response \<Rightarrow> ('w \<times> 'l, 'c, 'e, 'j) response" where
  "lift_response r =
     \<lparr>ok = ok r, status = status r, json = lift (json r), text_body = lift (text_body r)\<rparr>"

definition observed :: "('a, 'w, 'c, 'e, 'j) platform \<Rightarrow> ('a, 'w \<times> 'a list, 'c, 'e, 'j) platform" where
  "observed p =
     \<lparr>fetch = (\<lambda>args (w, calls). case fetch p args w of
                 (r, w') \<Rightarrow> (map_sum id lift_response r, (w', calls @ [args]))),
      console_error = (\<lambda>body. lift (console_error p body)),
      statusCodeToTRPCErrorCode = statusCodeToTRPCErrorCode p\<rparr>"

text \<open>A caller making one call after the other through one wrapper \<open>zf\<close>.\<close>

fun call_each ::
  "('s \<Rightarrow> 'a \<Rightarrow> ('w, 'c, 'e, 'd) async) \<Rightarrow> ('s \<times> 'a) list \<Rightarrow> 'w \<Rightarrow> ('c, 'e, 'd) settled list \<times> 'w" where
  "call_each zf [] w = ([], w)"
| "call_each zf ((schema, args) # rest) w =
     (case zf schema args w of
        (r, w') \<Rightarrow> (case call_each zf rest w' of (rs, w'') \<Rightarrow> (r # rs, w'')))"

section \<open>A sample environment\<close>

text \<open>
  Concrete inputs for the results below, after the examples of the specification: a server
  that answers 404 with the body \<^verbatim>\<open>{"error":"not found"}\<close>, 200 with \<^verbatim>\<open>{"hello":"world"}\<close>,
  200 with \<^verbatim>\<open>{"hello":123}\<close>, 200 with a body that is not JSON, 500 with a plain text body, and 503 with a
  body that cannot be read at all; and a schema that requires \<^verbatim>\<open>{hello: string}\<close>. The world is the
  list of what has been written to the console.
\<close>

datatype json_value =
    JString string
  | JNumber int
  | JObject "(string \<times> json_value) list"

type_synonym sample_world = "json_value body list"

type_synonym 'j sample_response = "(sample_world, string, string, 'j) response"

definition not_found_response :: "json_value sample_response" where
  "not_found_response =
     \<lparr>ok = False, status = 404,
      json = resolve (JObject [(''error'', JString ''not found'')]),
      text_body = reject (Foreign ''TypeError: body stream already read'')\<rparr>"

definition hello_world_response :: "json_value sample_response" where
  "hello_world_response =
     \<lparr>ok = True, status = 200,
      json = resolve (JObject [(''hello'', JString ''world'')]),
      text_body = reject (Foreign ''TypeError: body stream already read'')\<rparr>"

definition hello_number_response :: "json_value sample_response" where
  "hello_number_response =
     \<lparr>ok = True, status = 200,
      json = resolve (JObject [(''hello'', JNumber 123)]),
      text_body = reject (Foreign ''TypeError: body stream already read'')\<rparr>"

definition not_json_response :: "json_value sample_response" where
  "not_json_response =
     \<lparr>ok = True, status = 200,
      json = reject (Foreign ''SyntaxError: Unexpected token <''),
      text_body = resolve ''<html>hello</html>''\<rparr>"

definition unavailable_response :: "json_value sample_response" where
  "unavailable_response =
     \<lparr>ok = False, status = 503,
      json = reject (Foreign ''SyntaxError: Unexpected end of JSON input''),
      text_body = reject (Foreign ''TypeError: body stream already read'')\<rparr>"

definition greeting_response :: "json_value sample_response" where
  "greeting_response =
     \<lparr>ok = True, status = 200,
      json = resolve (JObject [(''hello'', JString ''world''), (''lang'', JString ''en'')]),
      text_body = reject (Foreign ''TypeError: body stream already read'')\<rparr>"

definition server_error_response :: "json_value sample_response" where
  "server_error_response =
     \<lparr>ok = False, status = 500,
      json = reject (Foreign ''SyntaxError: Unexpected token I''),
      text_body = resolve ''Internal Server Error''\<rparr>"

definition sample_fetch :: "string \<Rightarrow> (sample_world, string, string, json_value sample_response) async" where
  "sample_fetch url =
     (if url = ''/missing'' then resolve not_found_response
      else if url = ''/hello'' then resolve hello_world_response
      else if url = ''/number'' then resolve hello_number_response
      else if url = ''/page'' then resolve not_json_response
      else if url = ''/down'' then resolve unavailable_response
      else if url = ''/greeting'' then resolve greeting_response
      else if url = ''/crash'' then resolve server_error_response
      else reject (Foreign ''TypeError: fetch failed''))"

definition sample_console_error :: "'j body \<Rightarrow> ('j body list, string, string, unit) async" where
  "sample_console_error body w = (Inr (), w @ [body])"

definition sample_code :: "nat \<Rightarrow> string" where
  "sample_code s = (if s = 404 then ''NOT_FOUND'' else ''INTERNAL_SERVER_ERROR'')"

definition sample_platform :: "(string, sample_world, string, string, json_value) platform" where
  "sample_platform =
     \<lparr>fetch = sample_fetch, console_error = sample_console_error,
      statusCodeToTRPCErrorCode = sample_code\<rparr>"

text \<open>The schema \<^verbatim>\<open>{hello: string}\<close>: strict parsing keeps the declared field only,
  passthrough parsing keeps the whole object.\<close>

definition hello_of :: "json_value \<Rightarrow> string option" where
  "hello_of v =
     (case v of
        JObject members \<Rightarrow> (case map_of members ''hello'' of Some (JString s) \<Rightarrow> Some s | _ \<Rightarrow> None)
      | _ \<Rightarrow> None)"

definition hello_parse :: "(json_value, string, string, json_value) parser" where
  "hello_parse v =
     (case hello_of v of
        Some s \<Rightarrow> Inr (JObject [(''hello'', JString s)])
      | None \<Rightarrow> Inl (Foreign ''ZodError: hello: expected string''))"

definition hello_parse_passthrough :: "(json_value, string, string, json_value) parser" where
  "hello_parse_passthrough v =
     (case hello_of v of
        Some s \<Rightarrow> Inr v
      | None \<Rightarrow> Inl (Foreign ''ZodError: hello: expected string''))"

definition hello_schema :: "(json_value, string, string, json_value) schema" where
  "hello_schema = \<lparr>passthrough = Some (\<lambda>_. hello_parse_passthrough), parse = hello_parse\<rparr>"

definition hello_strict_schema :: "(json_value, string, string, json_value) schema" where
  "hello_strict_schema = \<lparr>passthrough = None, parse = hello_parse\<rparr>"

text \<open>
  A wrapper can also be built on a fetcher that hands on the response it got without
  looking at the status, as \<^verbatim>\<open>createZodFetcher(fetch)\<close> does, and called with a schema that
  accepts any value. What the fetcher resolves with is then a response.
\<close>

definition unchecked_fetcher ::
  "(string, sample_world, string, string, json_value sample_response) fetcher" where
  "unchecked_fetcher url = resolve not_found_response"

definition any_schema :: "('r, string, string, 'r) schema" where
  "any_schema = \<lparr>passthrough = None, parse = Inr\<rparr>"

definition offline_platform :: "(string, 'w, string, string, 'j) platform" where
  "offline_platform =
     \<lparr>fetch = (\<lambda>url. reject (Foreign ''TypeError: fetch failed'')),
      console_error = (\<lambda>body. resolve ()),
      statusCodeToTRPCErrorCode = (\<lambda>s. ''INTERNAL_SERVER_ERROR'')\<rparr>"

section \<open>Results\<close>

subsection \<open>Auxiliary facts\<close>

lemma await_rejected: "m w = (Inl e, w') \<Longrightarrow> await m k w = (Inl e, w')"
  by (simp add: await_def)

lemma await_resolved: "m w = (Inr v, w') \<Longrightarrow> await m k w = k v w'"
  by (simp add: await_def)

lemma catch_rejected: "m w = (Inl e, w') \<Longrightarrow> catch m h w = h e w'"
  by (simp add: catch_def)

lemma catch_resolved: "m w = (Inr v, w') \<Longrightarrow> catch m h w = (Inr v, w')"
  by (simp add: catch_def)

text \<open>The decimal digits of \<open>string_of_nat n\<close> read back as \<open>n\<close>.\<close>

lemma digit_value_digit_char: "d < 10 \<Longrightarrow> digit_value (digit_char d) = d"
  by (simp add: digit_value_def digit_char_def)

lemma string_of_nat_reads_back:
  "foldl (\<lambda>acc c. 10 * acc + digit_value c) 0 (string_of_nat n) = n"
proof (induction n rule: string_of_nat.induct)
  case (1 n)
  show ?case
  proof (cases "n < 10")
    case True
    then show ?thesis
      by (subst string_of_nat.simps) (simp add: digit_value_digit_char)
  next
    case False
    with 1 have "foldl (\<lambda>acc c. 10 * acc + digit_value c) 0 (string_of_nat (n div 10)) = n div 10"
      by simp
    with False show ?thesis
      by (subst string_of_nat.simps) (simp add: digit_value_digit_char)
  qed
qed

text \<open>The \<^verbatim>\<open>try\<close> block around the diagnostic read never throws.\<close>

lemma read_body_cases:
  "read_body response w =
     (case json response w of
        (Inr v, w1) \<Rightarrow> (Inr (Structured v), w1)
      | (Inl e, w1) \<Rightarrow>
          (case text_body response w1 of
             (Inr t, w2) \<Rightarrow> (Inr (Unstructured t), w2)
           | (Inl e', w2) \<Rightarrow> (Inl e', w2)))"
  by (simp add: read_body_def catch_def await_def resolve_def split: prod.splits sum.splits)

lemma log_body_cases:
  "log_body p response w =
     (case read_body response w of
        (Inr body, w1) \<Rightarrow> (Inr (), snd (console_error p body w1))
      | (Inl e, w1) \<Rightarrow> (Inr (), w1))"
  by (simp add: log_body_def catch_def await_def resolve_def split: prod.splits sum.splits)

lemma log_body_never_throws: "fst (log_body p response w) = Inr ()"
  by (simp add: log_body_cases split: prod.splits sum.splits)

lemma defaultFetcher_not_ok:
  assumes "fetch p args w = (Inr response, w1)" and "\<not> ok response"
  shows "defaultFetcher p args w =
           (Inl (TRPCError (statusCodeToTRPCErrorCode p (status response))
                           (''Request failed with status: '' @ string_of_nat (status response))),
            snd (log_body p response w1))"
proof -
  obtain u w2 where l: "log_body p response w1 = (u, w2)"
    by (cases "log_body p response w1")
  with log_body_never_throws [of p response w1] have "u = Inr ()"
    by simp
  with l assms show ?thesis
    by (simp add: defaultFetcher_def await_def reject_def)
qed

lemma defaultFetcher_ok:
  assumes "fetch p args w = (Inr response, w1)" and "ok response"
  shows "defaultFetcher p args w = json response w1"
  using assms by (simp add: defaultFetcher_def await_def)

lemma defaultFetcher_fetch_rejected:
  assumes "fetch p args w = (Inl e, w1)"
  shows "defaultFetcher p args w = (Inl e, w1)"
  using assms by (simp add: defaultFetcher_def await_def)

lemma createZodFetcher_default:
  "createZodFetcher p None schema args w =
     (case defaultFetcher p args w of
        (Inl e, w1) \<Rightarrow> (Inl e, w1)
      | (Inr data, w1) \<Rightarrow> (parse_response schema data, w1))"
  by (simp add: createZodFetcher_def await_def settle_def split: prod.splits sum.splits)

lemma createZodFetcher_custom:
  "createZodFetcher p (Some f) schema args w =
     (case f args w of
        (Inl e, w1) \<Rightarrow> (Inl e, w1)
      | (Inr data, w1) \<Rightarrow> (parse_response schema data, w1))"
  by (simp add: createZodFetcher_def await_def settle_def split: prod.splits sum.splits)

text \<open>When the transport call succeeds with the body \<open>data\<close>, the wrapper hands \<open>data\<close> to
  the schema: with the default transport after an ok status and a readable JSON body, with
  a caller's fetcher when it resolves.\<close>

lemma createZodFetcher_delivered:
  assumes "fetcher_arg = None \<and> fetch p args w = (Inr response, w0) \<and> ok response \<and>
             json response w0 = (Inr data, w1)
           \<or> fetcher_arg = Some f \<and> f args w = (Inr data, w1)"
  shows "createZodFetcher p fetcher_arg schema args w = (parse_response schema data, w1)"
  using assms
  by (auto simp: createZodFetcher_default createZodFetcher_custom defaultFetcher_ok)

lemma counted_call:
  "createZodFetcher p (Some (counted f)) schema args (w, calls) =
     (case f args w of
        (Inl e, w1) \<Rightarrow> (Inl e, (w1, calls @ [args]))
      | (Inr data, w1) \<Rightarrow> (parse_response schema data, (w1, calls @ [args])))"
  by (simp add: createZodFetcher_custom counted_def split: prod.splits sum.splits)

lemma counted_call_trace:
  "snd (snd (createZodFetcher p (Some (counted f)) schema args (w, calls))) = calls @ [args]"
  by (simp add: counted_call split: prod.splits sum.splits)

lemma counted_call_outcome:
  "fst (createZodFetcher p (Some (counted f)) schema args (w, calls)) =
     fst (createZodFetcher p' (Some f) schema args w)"
  unfolding counted_call
  by (simp add: createZodFetcher_custom split: prod.splits sum.splits)

lemma call_each_counted:
  "snd (snd (call_each (createZodFetcher q (Some (counted f))) requests (w, calls))) =
     calls @ map snd requests"
proof (induction requests arbitrary: w calls)
  case Nil
  show ?case by simp
next
  case (Cons request rest)
  obtain schema args where r: "request = (schema, args)"
    by (cases request)
  obtain out s where c: "createZodFetcher q (Some (counted f)) schema args (w, calls) = (out, s)"
    by (cases "createZodFetcher q (Some (counted f)) schema args (w, calls)")
  with counted_call_trace [of q f schema args w calls] have "snd s = calls @ [args]"
    by simp
  then obtain w1 where s: "s = (w1, calls @ [args])"
    by (cases s) simp
  have "snd (snd (call_each (createZodFetcher q (Some (counted f))) (request # rest) (w, calls))) =
        snd (snd (call_each (createZodFetcher q (Some (counted f))) rest (w1, calls @ [args])))"
    by (simp add: r c s split: prod.splits)
  also have "\<dots> = (calls @ [args]) @ map snd rest"
    by (rule Cons.IH)
  finally show ?case
    by (simp add: r)
qed

lemma lift_log_body:
  "snd (snd (log_body (observed p) (lift_response r) (w, calls))) = calls"
  by (simp add: log_body_cases read_body_cases observed_def lift_response_def lift_def
           split: prod.splits sum.splits)

lemma observed_default_call:
  "snd (snd (defaultFetcher (observed p) args (w, calls))) = calls @ [args]"
proof (cases "fetch p args w")
  case (Pair r w1)
  show ?thesis
  proof (cases r)
    case (Inl e)
    with Pair have "fetch (observed p) args (w, calls) = (Inl e, (w1, calls @ [args]))"
      by (simp add: observed_def)
    then show ?thesis
      by (simp add: defaultFetcher_fetch_rejected)
  next
    case (Inr response)
    with Pair have f: "fetch (observed p) args (w, calls) =
        (Inr (lift_response response), (w1, calls @ [args]))"
      by (simp add: observed_def)
    show ?thesis
    proof (cases "ok response")
      case True
      then have "ok (lift_response response :: ('b \<times> 'a list, 'c, 'd, 'e) response)"
        by (simp add: lift_response_def)
      with f show ?thesis
        by (simp add: defaultFetcher_ok) (simp add: lift_response_def lift_def split: prod.splits)
    next
      case False
      then have "\<not> ok (lift_response response :: ('b \<times> 'a list, 'c, 'd, 'e) response)"
        by (simp add: lift_response_def)
      with f show ?thesis
        by (simp add: defaultFetcher_not_ok lift_log_body)
    qed
  qed
qed

lemmas sample_defs =
  sample_platform_def sample_fetch_def sample_console_error_def sample_code_def
  not_found_response_def hello_world_response_def hello_number_response_def
  not_json_response_def unavailable_response_def greeting_response_def
  server_error_response_def hello_schema_def hello_strict_schema_def hello_parse_def
  hello_parse_passthrough_def hello_of_def resolve_def reject_def parse_response_def

lemma string_of_nat_samples:
  "string_of_nat 404 = ''404''" "string_of_nat 500 = ''500''" "string_of_nat 503 = ''503''"
  by code_simp+

subsection \<open>Non-success status\<close>

text \<open>
  C1, as amended. For every call through a wrapper built without a transport (so on the
  default transport), when the HTTP call returns a response with a non-success status, the
  call fails with a \<^verbatim>\<open>TRPCError\<close> whose code is \<^verbatim>\<open>statusCodeToTRPCErrorCode\<close> of the status and
  whose message is "Request failed with status: " followed by the status in decimal;
  this holds whatever the two body readers and the console do.
\<close>

theorem default_transport_request_failed:
  assumes "fetch p args w = (Inr response, w1)" and "\<not> ok response"
  shows "fst (createZodFetcher p None schema args w) =
           Inl (TRPCError (statusCodeToTRPCErrorCode p (status response))
                          (''Request failed with status: '' @ string_of_nat (status response)))
         \<and> suffix (string_of_nat (status response))
              (''Request failed with status: '' @ string_of_nat (status response))"
  using assms by (simp add: createZodFetcher_default defaultFetcher_not_ok suffix_def)

theorem default_transport_request_failed_witness:
  "fetch sample_platform ''/missing'' [] = (Inr not_found_response, []) \<and>
   \<not> ok not_found_response \<and>
   fst (createZodFetcher sample_platform None hello_schema ''/missing'' []) =
     Inl (TRPCError ''NOT_FOUND'' ''Request failed with status: 404'')"
proof -
  have h1: "fetch sample_platform ''/missing'' [] = (Inr not_found_response, [])"
    by (simp add: sample_defs)
  have h2: "\<not> ok not_found_response"
    by (simp add: sample_defs)
  from default_transport_request_failed [OF h1 h2, of hello_schema] h1 h2 show ?thesis
    by (simp add: sample_defs string_of_nat_samples)
qed

text \<open>
  C1 as first stated speaks of every transport call. A wrapper built on the fetcher of the
  documentation's example does not fail with a \<^verbatim>\<open>TRPCError\<close> when the HTTP call returns
  status 404: with a schema that accepts any value the call resolves with the error body,
  and with the schema \<^verbatim>\<open>{hello: string}\<close> it fails with what the schema throws.
\<close>

theorem example_transport_no_request_failed_on_404:
  "fetch sample_platform ''/missing'' [] = (Inr not_found_response, []) \<and>
   \<not> ok not_found_response \<and>
   status not_found_response = 404 \<and>
   createZodFetcher sample_platform (Some (example_fetcher sample_platform)) any_schema
       ''/missing'' [] =
     (Inr (JObject [(''error'', JString ''not found'')]), []) \<and>
   createZodFetcher sample_platform (Some (example_fetcher sample_platform)) hello_schema
       ''/missing'' [] =
     (Inl (Foreign ''ZodError: hello: expected string''), [])"
  by (simp add: createZodFetcher_custom example_fetcher_def await_def any_schema_def sample_defs)

text \<open>
  C5. On a non-success status the default transport reads the body as JSON first and, only
  if that read fails, as text; a body so obtained goes to \<^verbatim>\<open>console.error\<close>. Whatever
  fails in this attempt is dropped, and the \<^verbatim>\<open>TRPCError\<close> is thrown afterwards in every
  case.
\<close>

theorem default_transport_diagnostic_read:
  assumes "fetch p args w = (Inr response, w1)" and "\<not> ok response"
  shows "defaultFetcher p args w =
           (Inl (TRPCError (statusCodeToTRPCErrorCode p (status response))
                           (''Request failed with status: '' @ string_of_nat (status response))),
            (case json response w1 of
               (Inr v, w2) \<Rightarrow> snd (console_error p (Structured v) w2)
             | (Inl e, w2) \<Rightarrow>
                 (case text_body response w2 of
                    (Inr t, w3) \<Rightarrow> snd (console_error p (Unstructured t) w3)
                  | (Inl e', w3) \<Rightarrow> w3)))"
  using assms
  by (simp add: defaultFetcher_not_ok log_body_cases read_body_cases split: prod.splits sum.splits)

theorem default_transport_diagnostic_read_witness:
  "fetch sample_platform ''/missing'' [] = (Inr not_found_response, []) \<and>
   \<not> ok not_found_response \<and>
   defaultFetcher sample_platform ''/missing'' [] =
     (Inl (TRPCError ''NOT_FOUND'' ''Request failed with status: 404''),
      [Structured (JObject [(''error'', JString ''not found'')])]) \<and>
   fetch sample_platform ''/crash'' [] = (Inr server_error_response, []) \<and>
   \<not> ok server_error_response \<and>
   defaultFetcher sample_platform ''/crash'' [] =
     (Inl (TRPCError ''INTERNAL_SERVER_ERROR'' ''Request failed with status: 500''),
      [Unstructured ''Internal Server Error'']) \<and>
   fetch sample_platform ''/down'' [] = (Inr unavailable_response, []) \<and>
   \<not> ok unavailable_response \<and>
   defaultFetcher sample_platform ''/down'' [] =
     (Inl (TRPCError ''INTERNAL_SERVER_ERROR'' ''Request failed with status: 503''), [])"
proof -
  have a1: "fetch sample_platform ''/missing'' [] = (Inr not_found_response, [])"
    and a2: "\<not> ok not_found_response"
    and b1: "fetch sample_platform ''/crash'' [] = (Inr server_error_response, [])"
    and b2: "\<not> ok server_error_response"
    and c1: "fetch sample_platform ''/down'' [] = (Inr unavailable_response, [])"
    and c2: "\<not> ok unavailable_response"
    by (simp_all add: sample_defs)
  from default_transport_diagnostic_read [OF a1 a2]
  have a: "defaultFetcher sample_platform ''/missing'' [] =
     (Inl (TRPCError ''NOT_FOUND'' ''Request failed with status: 404''),
      [Structured (JObject [(''error'', JString ''not found'')])])"
    by (simp add: sample_defs string_of_nat_samples)
  from default_transport_diagnostic_read [OF b1 b2]
  have b: "defaultFetcher sample_platform ''/crash'' [] =
     (Inl (TRPCError ''INTERNAL_SERVER_ERROR'' ''Request failed with status: 500''),
      [Unstructured ''Internal Server Error''])"
    by (simp add: sample_defs string_of_nat_samples)
  from default_transport_diagnostic_read [OF c1 c2]
  have c: "defaultFetcher sample_platform ''/down'' [] =
     (Inl (TRPCError ''INTERNAL_SERVER_ERROR'' ''Request failed with status: 503''), [])"
    by (simp add: sample_defs string_of_nat_samples)
  from a1 a2 b1 b2 c1 c2 a b c show ?thesis
    by simp
qed

subsection \<open>Success status\<close>

text \<open>
  C2. When the transport call succeeds with a body (the default transport: a success status
  and a body that deserialises as JSON; a caller's fetcher: it resolves with the body) and
  the schema's parse of that body produces a value, the call through the wrapper resolves
  with exactly that value.
\<close>

theorem parsed_value_is_returned:
  assumes "fetcher_arg = None \<and> fetch p args w = (Inr response, w0) \<and> ok response \<and>
             json response w0 = (Inr data, w1)
           \<or> fetcher_arg = Some f \<and> f args w = (Inr data, w1)"
    and "parse_response schema data = Inr parsed"
  shows "createZodFetcher p fetcher_arg schema args w = (Inr parsed, w1)"
  using createZodFetcher_delivered [OF assms(1), of schema] assms(2) by simp

theorem parsed_value_is_returned_witness:
  "fetch sample_platform ''/hello'' [] = (Inr hello_world_response, []) \<and>
   ok hello_world_response \<and>
   json hello_world_response [] = (Inr (JObject [(''hello'', JString ''world'')]), []) \<and>
   example_fetcher sample_platform ''/hello'' [] =
     (Inr (JObject [(''hello'', JString ''world'')]), []) \<and>
   parse_response hello_schema (JObject [(''hello'', JString ''world'')]) =
     Inr (JObject [(''hello'', JString ''world'')]) \<and>
   createZodFetcher sample_platform None hello_schema ''/hello'' [] =
     (Inr (JObject [(''hello'', JString ''world'')]), []) \<and>
   createZodFetcher sample_platform (Some (example_fetcher sample_platform)) hello_schema
       ''/hello'' [] =
     (Inr (JObject [(''hello'', JString ''world'')]), [])"
proof -
  have h1: "fetch sample_platform ''/hello'' [] = (Inr hello_world_response, [])"
    and h2: "ok hello_world_response"
    and h3: "json hello_world_response [] = (Inr (JObject [(''hello'', JString ''world'')]), [])"
    and h4: "parse_response hello_schema (JObject [(''hello'', JString ''world'')]) =
               Inr (JObject [(''hello'', JString ''world'')])"
    by (simp_all add: sample_defs)
  have h5: "example_fetcher sample_platform ''/hello'' [] =
              (Inr (JObject [(''hello'', JString ''world'')]), [])"
    by (simp add: example_fetcher_def await_def sample_defs)
  from h1 h2 h3 have d1:
    "None = None \<and> fetch sample_platform ''/hello'' [] = (Inr hello_world_response, []) \<and>
       ok hello_world_response \<and>
       json hello_world_response [] = (Inr (JObject [(''hello'', JString ''world'')]), [])
     \<or> None = Some (example_fetcher sample_platform) \<and>
       example_fetcher sample_platform ''/hello'' [] =
         (Inr (JObject [(''hello'', JString ''world'')]), [])"
    by simp
  from h5 have d2:
    "Some (example_fetcher sample_platform) = None \<and>
       fetch sample_platform ''/hello'' [] = (Inr hello_world_response, []) \<and>
       ok hello_world_response \<and>
       json hello_world_response [] = (Inr (JObject [(''hello'', JString ''world'')]), [])
     \<or> Some (example_fetcher sample_platform) = Some (example_fetcher sample_platform) \<and>
       example_fetcher sample_platform ''/hello'' [] =
         (Inr (JObject [(''hello'', JString ''world'')]), [])"
    by simp
  from parsed_value_is_returned [OF d1 h4] parsed_value_is_returned [OF d2 h4] h1 h2 h3 h4 h5
  show ?thesis
    by simp
qed

text \<open>
  C3. The wrapper chooses the parser by what the schema offers: a schema that has a
  \<^verbatim>\<open>passthrough\<close> operation parses the body with the parser that operation returns, any
  other schema with its own \<^verbatim>\<open>parse\<close>.
\<close>

theorem parsing_mode_by_capability:
  assumes "fetcher_arg = None \<and> fetch p args w = (Inr response, w0) \<and> ok response \<and>
             json response w0 = (Inr data, w1)
           \<or> fetcher_arg = Some f \<and> f args w = (Inr data, w1)"
  shows "createZodFetcher p fetcher_arg schema args w =
           (case passthrough schema of
              Some pt \<Rightarrow> (pt () data, w1)
            | None \<Rightarrow> (parse schema data, w1))"
  using createZodFetcher_delivered [OF assms, of schema]
  by (simp add: parse_response_def split: option.splits)

theorem parsing_mode_by_capability_witness:
  "fetch sample_platform ''/greeting'' [] = (Inr greeting_response, []) \<and>
   ok greeting_response \<and>
   json greeting_response [] =
     (Inr (JObject [(''hello'', JString ''world''), (''lang'', JString ''en'')]), []) \<and>
   createZodFetcher sample_platform None hello_schema ''/greeting'' [] =
     (Inr (JObject [(''hello'', JString ''world''), (''lang'', JString ''en'')]), []) \<and>
   createZodFetcher sample_platform None hello_strict_schema ''/greeting'' [] =
     (Inr (JObject [(''hello'', JString ''world'')]), [])"
proof -
  have h1: "fetch sample_platform ''/greeting'' [] = (Inr greeting_response, [])"
    and h2: "ok greeting_response"
    and h3: "json greeting_response [] =
      (Inr (JObject [(''hello'', JString ''world''), (''lang'', JString ''en'')]), [])"
    by (simp_all add: sample_defs)
  from h1 h2 h3 have d:
    "None = None \<and> fetch sample_platform ''/greeting'' [] = (Inr greeting_response, []) \<and>
       ok greeting_response \<and>
       json greeting_response [] =
         (Inr (JObject [(''hello'', JString ''world''), (''lang'', JString ''en'')]), [])
     \<or> None = Some (example_fetcher sample_platform) \<and>
       example_fetcher sample_platform ''/greeting'' [] =
         (Inr (JObject [(''hello'', JString ''world''), (''lang'', JString ''en'')]), [])"
    by simp
  from parsing_mode_by_capability [OF d, of hello_schema]
    parsing_mode_by_capability [OF d, of hello_strict_schema] h1 h2 h3
  show ?thesis
    by (simp add: sample_defs)
qed

text \<open>
  C4. When the transport call succeeds with a body (the default transport: a success status
  and a body that deserialises as JSON; a caller's fetcher: it resolves with the body) and
  the schema's parse of that body throws, the call through the wrapper fails with exactly
  the value the schema threw; it does not resolve with anything.
\<close>

theorem validation_error_propagates:
  assumes "fetcher_arg = None \<and> fetch p args w = (Inr response, w0) \<and> ok response \<and>
             json response w0 = (Inr data, w1)
           \<or> fetcher_arg = Some f \<and> f args w = (Inr data, w1)"
    and "parse_response schema data = Inl err"
  shows "createZodFetcher p fetcher_arg schema args w = (Inl err, w1)"
  using createZodFetcher_delivered [OF assms(1), of schema] assms(2) by simp

theorem validation_error_propagates_witness:
  "fetch sample_platform ''/number'' [] = (Inr hello_number_response, []) \<and>
   ok hello_number_response \<and>
   json hello_number_response [] = (Inr (JObject [(''hello'', JNumber 123)]), []) \<and>
   parse_response hello_schema (JObject [(''hello'', JNumber 123)]) =
     Inl (Foreign ''ZodError: hello: expected string'') \<and>
   createZodFetcher sample_platform None hello_schema ''/number'' [] =
     (Inl (Foreign ''ZodError: hello: expected string''), [])"
proof -
  have h1: "fetch sample_platform ''/number'' [] = (Inr hello_number_response, [])"
    and h2: "ok hello_number_response"
    and h3: "json hello_number_response [] = (Inr (JObject [(''hello'', JNumber 123)]), [])"
    and h4: "parse_response hello_schema (JObject [(''hello'', JNumber 123)]) =
               Inl (Foreign ''ZodError: hello: expected string'')"
    by (simp_all add: sample_defs)
  from h1 h2 h3 have d:
    "None = None \<and> fetch sample_platform ''/number'' [] = (Inr hello_number_response, []) \<and>
       ok hello_number_response \<and>
       json hello_number_response [] = (Inr (JObject [(''hello'', JNumber 123)]), [])
     \<or> None = Some (example_fetcher sample_platform) \<and>
       example_fetcher sample_platform ''/number'' [] =
         (Inr (JObject [(''hello'', JNumber 123)]), [])"
    by simp
  from validation_error_propagates [OF d h4] h1 h2 h3 h4 show ?thesis
    by simp
qed

text \<open>
  C10. With the default transport, a response with a success status whose body does not
  deserialise as JSON makes the call fail with the very value \<^verbatim>\<open>json()\<close> threw: it is
  neither wrapped in a \<^verbatim>\<open>TRPCError\<close> nor shown to the schema.
\<close>

theorem default_transport_json_error_propagates:
  assumes "fetch p args w = (Inr response, w1)" and "ok response"
    and "json response w1 = (Inl e, w2)"
  shows "createZodFetcher p None schema args w = (Inl e, w2)"
  using assms by (simp add: createZodFetcher_default defaultFetcher_ok)

theorem default_transport_json_error_propagates_witness:
  "fetch sample_platform ''/page'' [] = (Inr not_json_response, []) \<and>
   ok not_json_response \<and>
   json not_json_response [] = (Inl (Foreign ''SyntaxError: Unexpected token <''), []) \<and>
   createZodFetcher sample_platform None hello_schema ''/page'' [] =
     (Inl (Foreign ''SyntaxError: Unexpected token <''), [])"
proof -
  have h1: "fetch sample_platform ''/page'' [] = (Inr not_json_response, [])"
    and h2: "ok not_json_response"
    and h3: "json not_json_response [] = (Inl (Foreign ''SyntaxError: Unexpected token <''), [])"
    by (simp_all add: sample_defs)
  from default_transport_json_error_propagates [OF h1 h2 h3, of hello_schema] h1 h2 h3
  show ?thesis
    by simp
qed

subsection \<open>The factory and its transport\<close>

text \<open>
  C6. The wrapper is built by a factory from an optional transport. Left out, the transport
  is \<^verbatim>\<open>defaultFetcher\<close>. Calls made one after the other through one wrapper all go to the
  transport it was built with: the transport is called once for each, with that call's
  arguments, in order.
\<close>

theorem factory_default_and_shared_transport:
  "createZodFetcher p None = createZodFetcher p (Some (defaultFetcher p)) \<and>
   snd (snd (call_each (createZodFetcher q (Some (counted f))) requests (w, calls))) =
     calls @ map snd requests"
  by (simp add: call_each_counted) (simp add: createZodFetcher_def)

text \<open>
  C7. One call through the wrapper calls the transport it was built with exactly once, with
  the caller's arguments as they are; the outcome is that of the one call. Built on the
  default transport, the wrapper makes exactly one call of \<^verbatim>\<open>fetch\<close>, with those arguments.
  The arguments are of an arbitrary type, which the wrapper cannot look into.
\<close>

theorem transport_called_exactly_once:
  "snd (snd (createZodFetcher p (Some (counted f)) schema args (w, calls))) = calls @ [args] \<and>
   fst (createZodFetcher p (Some (counted f)) schema args (w, calls)) =
     fst (createZodFetcher p' (Some f) schema args w) \<and>
   snd (snd (createZodFetcher (observed q) None schema args (w, calls))) = calls @ [args]"
proof -
  have "snd (createZodFetcher (observed q) None schema args (w, calls)) =
          snd (defaultFetcher (observed q) args (w, calls))"
    by (simp add: createZodFetcher_default split: prod.splits sum.splits)
  then have "snd (snd (createZodFetcher (observed q) None schema args (w, calls))) = calls @ [args]"
    by (simp add: observed_default_call)
  with counted_call_trace [of p f schema args w calls]
    counted_call_outcome [of p f schema args w calls p']
  show ?thesis
    by simp
qed

text \<open>
  C9. The function \<^verbatim>\<open>createZodFetcher\<close> returns looks at neither status nor success flag:
  whatever value a caller's fetcher resolves with goes to the schema's parse as it is, and
  nothing of the platform (the status mapping included) enters the result. A fetcher that
  resolves on a non-success status therefore gets a parse of what it resolved with, not a
  \<^verbatim>\<open>TRPCError\<close>.
\<close>

theorem wrapper_does_not_inspect_status:
  assumes "f args w = (Inr resolved, w1)"
  shows "createZodFetcher p (Some f) schema args w = (parse_response schema resolved, w1) \<and>
         createZodFetcher p (Some f) = createZodFetcher p' (Some f)"
  using assms by (simp add: createZodFetcher_custom) (simp add: createZodFetcher_def)

theorem wrapper_does_not_inspect_status_witness:
  "unchecked_fetcher ''/missing'' [] = (Inr not_found_response, []) \<and>
   \<not> ok not_found_response \<and>
   parse_response any_schema not_found_response = Inr not_found_response \<and>
   createZodFetcher offline_platform (Some unchecked_fetcher) any_schema ''/missing'' [] =
     (Inr not_found_response, [])"
proof -
  have h: "unchecked_fetcher ''/missing'' [] = (Inr not_found_response, [])"
    by (simp add: unchecked_fetcher_def resolve_def)
  have n: "\<not> ok not_found_response"
    by (simp add: not_found_response_def)
  have a: "parse_response any_schema not_found_response = Inr not_found_response"
    by (simp add: parse_response_def any_schema_def)
  from wrapper_does_not_inspect_status
         [of unchecked_fetcher "''/missing''" "[]" not_found_response "[]"
             offline_platform any_schema offline_platform, OF h] h n a
  show ?thesis
    by simp
qed

subsection \<open>The document title\<close>






end
